theory Spec2Isabelle
  imports Complex_Main
begin

section \<open>Soil water characteristics (soil.py)\<close>

text \<open>
  The module is a set of pure functions over Python floats. Floats are modelled as the
  real numbers: rounding, overflow, infinities and NaN are outside the model. Everything
  else a call can do besides returning a float is a value of the model: an exception is
  \<open>Inl\<close> of the exception's kind, and the complex number that Python's \<open>**\<close> returns
  for a negative base with a non-integral exponent is a \<open>PyComplex\<close>.
\<close>

subsection \<open>Python values, exceptions and operators\<close>

datatype py_error = AssertionError | ValueError | ZeroDivisionError

datatype py_num = PyFloat real | PyComplex complex

type_synonym 'a py_result = "py_error + 'a"

definition py_bind :: "'a py_result \<Rightarrow> ('a \<Rightarrow> 'b py_result) \<Rightarrow> 'b py_result" where
  "py_bind m f = (case m of Inl e \<Rightarrow> Inl e | Inr v \<Rightarrow> f v)"

text \<open>\<open>math.log(x)\<close>: a math domain error (\<open>ValueError\<close>) unless \<open>x\<close> is positive.\<close>

definition math_log :: "real \<Rightarrow> real py_result" where
  "math_log x = (if x \<le> 0 then Inl ValueError else Inr (ln x))"

text \<open>\<open>x / y\<close> on floats: \<open>ZeroDivisionError\<close> when the divisor is zero.\<close>

definition py_truediv :: "real \<Rightarrow> real \<Rightarrow> real py_result" where
  "py_truediv x y = (if y = 0 then Inl ZeroDivisionError else Inr (x / y))"

text \<open>
  \<open>x ** y\<close> on floats, in the order of the interpreter's case analysis: exponent zero
  gives one; base zero raises for a negative exponent and gives zero otherwise; a
  negative base with a non-integral exponent is handed to complex exponentiation
  (modulus \<open>|x|\<^sup>y\<close>, argument \<open>\<pi>y\<close>); everything else is the real power.
\<close>

definition py_pow :: "real \<Rightarrow> real \<Rightarrow> py_num py_result" where
  "py_pow x y =
     (if y = 0 then Inr (PyFloat 1)
      else if x = 0 then (if y < 0 then Inl ZeroDivisionError else Inr (PyFloat 0))
      else if 0 < x then Inr (PyFloat (x powr y))
      else if y \<in> \<int> then Inr (PyFloat (x powi \<lfloor>y\<rfloor>))
      else Inr (PyComplex (complex_of_real (\<bar>x\<bar> powr y) * cis (pi * y))))"

text \<open>\<open>x * v\<close> for a float \<open>x\<close>: a float times a complex number is complex.\<close>

fun py_mul :: "real \<Rightarrow> py_num \<Rightarrow> py_num" where
  "py_mul x (PyFloat v) = PyFloat (x * v)"
| "py_mul x (PyComplex z) = PyComplex (complex_of_real x * z)"

subsection \<open>The functions of soil.py\<close>

definition MIN_SOIL_PARTICLE_DENS :: real where
  "MIN_SOIL_PARTICLE_DENS = 265 / 100"

definition vol_water_content_33_j_kg :: "real \<Rightarrow> real \<Rightarrow> real \<Rightarrow> real" where
  "vol_water_content_33_j_kg clay sand organic_matter =
     (let x1 = 299 / 1000
               - 251 / 1000 * sand
               + 195 / 1000 * clay
               + 11 / 1000 * organic_matter
               + 6 / 1000 * sand * organic_matter
               - 27 / 1000 * clay * organic_matter
               + 452 / 1000 * sand * clay
      in - (15 / 1000) + 636 / 1000 * x1 + 1283 / 1000 * x1 ^ 2)"

definition vol_water_content_1500_jkg :: "real \<Rightarrow> real \<Rightarrow> real \<Rightarrow> real" where
  "vol_water_content_1500_jkg clay sand organic_matter =
     (let x1 = 31 / 1000
               - 24 / 1000 * sand
               + 487 / 1000 * clay
               + 6 / 1000 * organic_matter
               + 5 / 1000 * sand * organic_matter
               - 13 / 1000 * clay * organic_matter
               + 68 / 1000 * sand * clay
      in - (2 / 100) + 114 / 100 * x1)"

text \<open>
  The saturated water content that \<open>get_bulk_density\<close> computes in its local variable
  \<open>sat_water_content\<close>, before converting it to a bulk density.
\<close>

definition sat_water_content_inline :: "real \<Rightarrow> real \<Rightarrow> real \<Rightarrow> real" where
  "sat_water_content_inline clay sand organic_matter =
     (let x1 = 78 / 1000
               + 278 / 1000 * sand
               + 34 / 1000 * clay
               + 22 / 1000 * organic_matter
               - 18 / 1000 * sand * organic_matter
               - 27 / 1000 * clay * organic_matter
               - 584 / 1000 * sand * clay;
          x2 = - (107 / 1000) + 1636 / 1000 * x1;
          field_capacity = vol_water_content_33_j_kg clay sand organic_matter
      in 43 / 1000 + field_capacity + x2 - 97 / 1000 * sand)"

definition get_bulk_density :: "real \<Rightarrow> real \<Rightarrow> real \<Rightarrow> real" where
  "get_bulk_density clay sand organic_matter =
     (let x1 = 78 / 1000
               + 278 / 1000 * sand
               + 34 / 1000 * clay
               + 22 / 1000 * organic_matter
               - 18 / 1000 * sand * organic_matter
               - 27 / 1000 * clay * organic_matter
               - 584 / 1000 * sand * clay;
          x2 = - (107 / 1000) + 1636 / 1000 * x1;
          field_capacity = vol_water_content_33_j_kg clay sand organic_matter;
          sat_water_content = 43 / 1000 + field_capacity + x2 - 97 / 1000 * sand
      in (1 - sat_water_content) * MIN_SOIL_PARTICLE_DENS)"

definition sat_water_content :: "real \<Rightarrow> real py_result" where
  "sat_water_content bulk_density =
     py_bind (py_truediv bulk_density MIN_SOIL_PARTICLE_DENS) (\<lambda>q. Inr (1 - q))"

definition b_value :: "real \<Rightarrow> real \<Rightarrow> real py_result" where
  "b_value water_content_33_j_kg water_content_1500_j_kg =
     py_bind (math_log 1500) (\<lambda>l1500.
     py_bind (math_log 33) (\<lambda>l33.
     py_bind (math_log water_content_33_j_kg) (\<lambda>lfc.
     py_bind (math_log water_content_1500_j_kg) (\<lambda>lwp.
       py_truediv (l1500 - l33) (lfc - lwp)))))"

definition air_entry_pot :: "real \<Rightarrow> real \<Rightarrow> real \<Rightarrow> py_num py_result" where
  "air_entry_pot field_capacity sat_wc b =
     py_bind (py_truediv field_capacity sat_wc) (\<lambda>q.
     py_bind (py_pow q b) (\<lambda>p.
       Inr (py_mul (- 33) p)))"

definition water_potential :: "real \<Rightarrow> real \<Rightarrow> real \<Rightarrow> real \<Rightarrow> py_num py_result" where
  "water_potential sat_wc air_entry_potential campbell_b wc =
     (if \<not> sat_wc > 0 then Inl AssertionError
      else if \<not> wc > 0 then Inl AssertionError
      else py_bind (py_truediv sat_wc wc) (\<lambda>q.
           py_bind (py_pow q campbell_b) (\<lambda>p.
             Inr (py_mul air_entry_potential p))))"

definition water_content :: "real \<Rightarrow> real \<Rightarrow> real \<Rightarrow> real \<Rightarrow> py_num py_result" where
  "water_content sat_wc air_entry_potential campbell_b wp =
     py_bind (py_truediv wp air_entry_potential) (\<lambda>q.
     py_bind (py_truediv (- 1) campbell_b) (\<lambda>e.
     py_bind (py_pow q e) (\<lambda>p.
       Inr (py_mul sat_wc p))))"

section \<open>Auxiliary facts\<close>

lemma py_bind_Inr [simp]: "py_bind (Inr v) f = f v"
  by (simp add: py_bind_def)

lemma py_bind_Inl [simp]: "py_bind (Inl e) f = Inl e"
  by (simp add: py_bind_def)

lemma py_truediv_nonzero: "y \<noteq> 0 \<Longrightarrow> py_truediv x y = Inr (x / y)"
  by (simp add: py_truediv_def)

lemma py_pow_pos: "0 < x \<Longrightarrow> py_pow x y = Inr (PyFloat (x powr y))"
  by (simp add: py_pow_def)

lemma water_potential_pos:
  assumes "0 < s" and "0 < w"
  shows "water_potential s e b w = Inr (PyFloat (e * (s / w) powr b))"
  using assms by (simp add: water_potential_def py_truediv_nonzero py_pow_pos)

lemma water_content_pos:
  assumes "0 < p / e" and "b \<noteq> 0"
  shows "water_content s e b p = Inr (PyFloat (s * (p / e) powr (- 1 / b)))"
proof -
  from assms(1) have "e \<noteq> 0" by auto
  then show ?thesis
    using assms by (simp add: water_content_def py_truediv_nonzero py_pow_pos)
qed

lemma get_bulk_density_inline:
  "get_bulk_density clay sand om
     = (1 - sat_water_content_inline clay sand om) * MIN_SOIL_PARTICLE_DENS"
  by (simp add: get_bulk_density_def sat_water_content_inline_def Let_def)

subsection \<open>Polynomial bounds on the texture regressions\<close>

text \<open>
  Positivity certificates. On the region \<open>0 \<le> c \<le> 1/2\<close>, \<open>0 \<le> s\<close>, \<open>c + s \<le> 1\<close>,
  \<open>0 \<le> om \<le> 8\<close> each of the differences below is a positive constant plus
  non-negative multiples of products of the quantities \<open>c\<close>, \<open>1/2 - c\<close>, \<open>s\<close>,
  \<open>1 - c - s\<close>, \<open>om\<close>, \<open>8 - om\<close>, all of which are non-negative there. For the
  wilting-point content itself the quantity \<open>c\<close> is replaced by \<open>c - 1/50\<close>, which is
  non-negative on the part of the region with at least 2 % clay.
\<close>

lemma fc_minus_wilting_cert:
  fixes c s om :: real
  shows "vol_water_content_33_j_kg c s om - vol_water_content_1500_jkg c s om =
      1185581 / 375000000
      + 12141433 / 75000000 * ((1 - c - s))
      + 16913261 / 250000000 * (c * s)
      + 11433 / 15625000 * ((1 / 2 - c) * om)
      + 160463401 / 3000000000 * ((1 - c - s) * (1 - c - s))
      + 1399759 / 200000000 * ((1 - c - s) * (8 - om))
      + 60536399 / 125000000 * (c * c * s)
      + 1763147 / 3000000000 * (c * (1 / 2 - c) * (8 - om))
      + 584159 / 62500000 * (c * s * (8 - om))
      + 370787 / 500000000 * ((1 / 2 - c) * om * om)
      + 15228513 / 8000000000 * ((1 - c - s) * om * (8 - om))
      + 28641019 / 187500000 * (c * c * (1 / 2 - c) * s)
      + 9878611 / 46875000 * (c * c * s * (1 - c - s))
      + 68155463 / 187500000 * (c * (1 / 2 - c) * s * (1 - c - s))
      + 3914433 / 125000000 * (c * (1 / 2 - c) * s * om)
      + 20174143 / 4800000000 * (c * (1 / 2 - c) * om * om)
      + 42293117 / 24000000000 * (c * (1 / 2 - c) * om * (8 - om))
      + 434937 / 62500000 * (c * s * s * om)
      + 15351681 / 4000000000 * (c * s * om * (8 - om))
      + 15356813 / 192000000000 * (c * om * om * om)
      + 15356813 / 192000000000 * (c * (8 - om) * (8 - om) * (8 - om))
      + 10253431 / 93750000 * ((1 / 2 - c) * (1 / 2 - c) * s * s)
      + 13504161 / 4000000000 * ((1 / 2 - c) * (1 - c - s) * om * om)
      + 873723 / 2000000000 * (s * (1 - c - s) * om * om)
      + 966099 / 2000000000 * (s * (1 - c - s) * om * (8 - om))"
  unfolding vol_water_content_33_j_kg_def vol_water_content_1500_jkg_def Let_def
  by algebra

lemma one_minus_sat_cert:
  fixes c s om :: real
  shows "1 - sat_water_content_inline c s om =
      20533059 / 4000000000
      + 534442237 / 2000000000 * ((1 / 2 - c))
      + 86426549 / 1000000000 * ((1 - c - s))
      + 26334759 / 500000000 * ((8 - om))
      + 1951443 / 40000000 * (c * (1 / 2 - c))
      + 82900353 / 200000000 * (c * s)
      + 4784703 / 62500000 * (c * om)
      + 80830283 / 1000000000 * (s * (1 - c - s))
      + 10183397 / 1000000000 * (s * om)
      + 155243 / 1000000000 * (om * (8 - om))
      + 1350999 / 100000000 * (c * c * om)
      + 5654181 / 25000000 * (c * (1 / 2 - c) * s)
      + 1304811 / 12500000 * (c * s * s)
      + 588897 / 2000000000 * (c * om * om)
      + 16575077 / 500000000 * ((1 / 2 - c) * s * om)
      + 873723 / 250000000 * (s * s * om)
      + 42339 / 250000000 * (s * om * (8 - om))
      + 3914433 / 125000000 * (c * c * s * om)
      + 16382627 / 62500000 * (c * (1 / 2 - c) * s * s)
      + 935307 / 1000000000 * (c * (1 / 2 - c) * om * om)
      + 434937 / 62500000 * (c * s * s * (8 - om))
      + 103923 / 250000000 * (c * s * om * om)
      + 11547 / 250000000 * (s * s * om * (8 - om))"
  unfolding sat_water_content_inline_def vol_water_content_33_j_kg_def Let_def
  by algebra

lemma wilting_cert:
  fixes c s om :: real
  shows "vol_water_content_1500_jkg c s om =
      71887 / 62500000
      + 357181 / 625000 * ((c - 1 / 50))
      + 16131 / 625000 * ((1 - c - s))
      + 969 / 12500 * ((c - 1 / 50) * s)
      + 19 / 16000 * ((c - 1 / 50) * (8 - om))
      + 5453 / 400000 * ((1 / 2 - c) * om)
      + 57 / 10000 * (s * om)"
  unfolding vol_water_content_1500_jkg_def Let_def
  by algebra

lemma sat_minus_fc_cert:
  fixes c s om :: real
  shows "sat_water_content_inline c s om - vol_water_content_33_j_kg c s om =
      1429 / 100000
      + 5317 / 125000 * (c * c)
      + 3747 / 15625 * (c * (1 - c - s))
      + 409 / 250000 * (c * (8 - om))
      + 24659 / 125000 * ((1 / 2 - c) * (1 / 2 - c))
      + 22363 / 31250 * ((1 / 2 - c) * s)
      + 409 / 31250 * ((1 / 2 - c) * om)
      + 3681 / 125000 * ((1 - c - s) * om)"
  unfolding sat_water_content_inline_def Let_def by algebra

lemma sat_above_fc:
  fixes c s om :: real
  assumes "0 \<le> c" "c \<le> 1 / 2" "0 \<le> s" "c + s \<le> 1" "0 \<le> om" "om \<le> 8"
  shows "vol_water_content_33_j_kg c s om < sat_water_content_inline c s om"
proof -
  have "0 < sat_water_content_inline c s om - vol_water_content_33_j_kg c s om"
    unfolding sat_minus_fc_cert
    using assms by (intro add_pos_nonneg mult_nonneg_nonneg) simp_all
  then show ?thesis by simp
qed

lemma region_nonneg:
  fixes c s om :: real
  assumes "0 \<le> c" "c \<le> 1 / 2" "0 \<le> s" "c + s \<le> 1" "0 \<le> om" "om \<le> 8"
  shows "0 \<le> 1 / 2 - c" "0 \<le> 1 - c - s" "0 \<le> 8 - om"
  using assms by simp_all

lemma fc_above_wilting:
  fixes c s om :: real
  assumes "0 \<le> c" "c \<le> 1 / 2" "0 \<le> s" "c + s \<le> 1" "0 \<le> om" "om \<le> 8"
  shows "vol_water_content_1500_jkg c s om < vol_water_content_33_j_kg c s om"
proof -
  note nn = assms(1,3,5) region_nonneg [OF assms]
  have "0 < vol_water_content_33_j_kg c s om - vol_water_content_1500_jkg c s om"
    unfolding fc_minus_wilting_cert
    by (intro add_pos_nonneg mult_nonneg_nonneg nn) simp_all
  then show ?thesis by simp
qed

lemma sat_below_one:
  fixes c s om :: real
  assumes "0 \<le> c" "c \<le> 1 / 2" "0 \<le> s" "c + s \<le> 1" "0 \<le> om" "om \<le> 8"
  shows "sat_water_content_inline c s om < 1"
proof -
  note nn = assms(1,3,5) region_nonneg [OF assms]
  have "0 < 1 - sat_water_content_inline c s om"
    unfolding one_minus_sat_cert
    by (intro add_pos_nonneg mult_nonneg_nonneg nn) simp_all
  then show ?thesis by simp
qed

lemma wilting_pos:
  fixes c s om :: real
  assumes "1 / 50 \<le> c" "c \<le> 1 / 2" "0 \<le> s" "c + s \<le> 1" "0 \<le> om" "om \<le> 8"
  shows "0 < vol_water_content_1500_jkg c s om"
proof -
  have nn: "0 \<le> c - 1 / 50" "0 \<le> 1 / 2 - c" "0 \<le> 1 - c - s" "0 \<le> 8 - om"
    using assms by simp_all
  show ?thesis
    unfolding wilting_cert
    by (intro add_pos_nonneg mult_nonneg_nonneg nn assms(3,5)) simp_all
qed

lemma b_value_pos:
  assumes "0 < w1500" and "w1500 < w33"
  shows "\<exists>b. b_value w33 w1500 = Inr b \<and> 0 < b"
proof -
  have "0 < ln w33 - ln w1500" using assms by simp
  moreover have "0 < ln 1500 - ln (33::real)" by simp
  ultimately have "0 < (ln 1500 - ln 33) / (ln w33 - ln w1500)" by (rule divide_pos_pos [rotated])
  moreover have "b_value w33 w1500 = Inr ((ln 1500 - ln 33) / (ln w33 - ln w1500))"
    using assms by (simp add: b_value_def math_log_def py_truediv_def)
  ultimately show ?thesis by blast
qed

text \<open>
  In exact real arithmetic the factor 2.65 of \<open>get_bulk_density\<close> cancels against the
  division in \<open>sat_water_content\<close>, which then gives back the saturated water content
  estimated inline. The doubles the two computations return are not compared here.
\<close>

lemma sat_water_content_of_bulk_density:
  "sat_water_content (get_bulk_density clay sand om)
     = Inr (sat_water_content_inline clay sand om)"
  by (simp add: sat_water_content_def get_bulk_density_inline
      MIN_SOIL_PARTICLE_DENS_def py_truediv_def field_simps)

section \<open>The retention curve\<close>

text \<open>
  Claim C7. \<open>water_potential\<close> computes \<open>\<psi>e * (\<theta>s / \<theta>) ^ b\<close> when the saturated water
  content and the water content are both positive, and a call with either of them zero
  or negative fails on the corresponding assertion (\<open>AssertionError\<close>, the spec's
  InvalidArgumentError) instead of evaluating the formula.
\<close>

theorem water_potential_contract:
  "(0 < s \<and> 0 < w \<longrightarrow> water_potential s e b w = Inr (PyFloat (e * (s / w) powr b)))
   \<and> (s \<le> 0 \<or> w \<le> 0 \<longrightarrow> water_potential s e b w = Inl AssertionError)"
  by (auto simp add: water_potential_pos) (auto simp add: water_potential_def)

theorem water_potential_contract_witness:
  "water_potential (1 / 2) (- (3 / 2)) 5 (1 / 4) = Inr (PyFloat (- 48))
   \<and> water_potential 0 (- (3 / 2)) 5 (1 / 4) = Inl AssertionError
   \<and> water_potential (1 / 2) (- (3 / 2)) 5 (- 1) = Inl AssertionError"
  using water_potential_contract [of "1 / 2" "1 / 4" "- (3 / 2)" 5]
    water_potential_contract [of 0 "1 / 4" "- (3 / 2)" 5]
    water_potential_contract [of "1 / 2" "- 1" "- (3 / 2)" 5]
  by simp

text \<open>
  Claim C10. For a positive saturated water content, any air-entry potential and any
  exponent, the curve evaluated at saturation returns the air-entry potential itself.
\<close>

theorem water_potential_at_saturation:
  "0 < s \<Longrightarrow> water_potential s e b s = Inr (PyFloat e)"
  by (simp add: water_potential_pos)

theorem water_potential_at_saturation_witness:
  "(0::real) < 1 / 2 \<and> water_potential (1 / 2) (- (3 / 2)) 5 (1 / 2) = Inr (PyFloat (- (3 / 2)))"
  using water_potential_at_saturation [of "1 / 2" "- (3 / 2)" 5] by simp

text \<open>
  In exact real arithmetic the two conversions are inverse to each other on
  \<open>0 < \<theta> \<le> \<theta>s\<close>, for \<open>\<theta>s > 0\<close>, \<open>\<psi>e < 0\<close> and \<open>b > 0\<close>. This is a fact about the
  formulas only: the rounding of \<open>**\<close> in double precision is not part of the model, and
  nothing is said here about how close the computed doubles come to \<open>\<theta>\<close>.
\<close>

lemma round_trip_exact:
  assumes "0 < s" and "e < 0" and "0 < b" and "0 < w" and "w \<le> s"
  shows "\<exists>p. water_potential s e b w = Inr (PyFloat p)
             \<and> water_content s e b p = Inr (PyFloat w)"
proof -
  let ?r = "s / w"
  let ?p = "e * ?r powr b"
  have q: "?p / e = ?r powr b" using assms by simp
  have "(?r powr b) powr (- 1 / b) = ?r powr (- 1)"
    using assms by (simp add: powr_powr)
  also have "\<dots> = w / s"
    using assms by simp
  finally have pw: "(?p / e) powr (- 1 / b) = w / s" using q by simp
  have "0 < ?r powr b" using assms by simp
  then have "0 < ?p / e" by (simp only: q)
  then have "water_content s e b ?p = Inr (PyFloat (s * (?p / e) powr (- 1 / b)))"
    using assms by (intro water_content_pos) auto
  also have "\<dots> = Inr (PyFloat w)"
    using pw assms by simp
  finally show ?thesis
    using water_potential_pos [OF assms(1) assms(4)] by blast
qed

text \<open>
  Claim C5, as the spec states it: \<open>water_potential\<close> is strictly decreasing in the water
  content. It is not: with \<open>\<theta>s = 0.5\<close>, \<open>\<psi>e = -1.5\<close>, \<open>b = 5\<close> the potential at the
  smaller water content 0.25 is -48, below the potential -1.5 at the larger water
  content 0.5.
\<close>

theorem water_potential_not_decreasing:
  "water_potential (1 / 2) (- (3 / 2)) 5 (1 / 4) = Inr (PyFloat (- 48))
   \<and> water_potential (1 / 2) (- (3 / 2)) 5 (1 / 2) = Inr (PyFloat (- (3 / 2)))
   \<and> (0::real) < 1 / 4 \<and> (1 / 4 :: real) < 1 / 2 \<and> \<not> (- (3 / 2) < (- 48 :: real))"
  by (simp add: water_potential_pos)

text \<open>
  Claim C5, amended. For \<open>\<theta>s > 0\<close>, \<open>\<psi>e < 0\<close>, \<open>b > 0\<close>: \<open>water_potential\<close> is strictly
  increasing in the water content over \<open>(0, \<theta>s]\<close> (a drier soil has a more negative
  potential), and \<open>water_content\<close> is strictly increasing in the potential over
  \<open>\<psi> \<le> \<psi>e\<close>.
\<close>

theorem retention_monotone:
  assumes "0 < s" and "e < 0" and "0 < b"
  shows "(0 < w1 \<and> w1 < w2 \<and> w2 \<le> s \<longrightarrow>
            (\<exists>p1 p2. water_potential s e b w1 = Inr (PyFloat p1)
                   \<and> water_potential s e b w2 = Inr (PyFloat p2) \<and> p1 < p2))
       \<and> (p1 < p2 \<and> p2 \<le> e \<longrightarrow>
            (\<exists>c1 c2. water_content s e b p1 = Inr (PyFloat c1)
                   \<and> water_content s e b p2 = Inr (PyFloat c2) \<and> c1 < c2))"
proof (intro conjI impI)
  assume w: "0 < w1 \<and> w1 < w2 \<and> w2 \<le> s"
  then have "0 < s / w2" and "s / w2 < s / w1"
    using assms(1) by (simp_all add: frac_less2)
  then have "(s / w2) powr b < (s / w1) powr b"
    using assms(3) by (intro powr_less_mono2) simp_all
  then have "e * (s / w1) powr b < e * (s / w2) powr b"
    using assms(2) by simp
  moreover have "water_potential s e b w1 = Inr (PyFloat (e * (s / w1) powr b))"
    using w assms(1) by (intro water_potential_pos) simp_all
  moreover have "water_potential s e b w2 = Inr (PyFloat (e * (s / w2) powr b))"
    using w assms(1) by (intro water_potential_pos) simp_all
  ultimately show "\<exists>p1 p2. water_potential s e b w1 = Inr (PyFloat p1)
      \<and> water_potential s e b w2 = Inr (PyFloat p2) \<and> p1 < p2"
    by blast
next
  assume p: "p1 < p2 \<and> p2 \<le> e"
  have q2: "0 < p2 / e" using p assms(2) by (simp add: divide_neg_neg)
  have q12: "p2 / e < p1 / e" using p assms(2) by (simp add: divide_strict_right_mono_neg)
  have q1: "0 < p1 / e" using q2 q12 by linarith
  have "- 1 / b < 0" using assms(3) by simp
  then have "(p1 / e) powr (- 1 / b) < (p2 / e) powr (- 1 / b)"
    using q2 q12 by (intro powr_less_mono2_neg)
  then have "s * (p1 / e) powr (- 1 / b) < s * (p2 / e) powr (- 1 / b)"
    using assms(1) by simp
  moreover have "water_content s e b p1 = Inr (PyFloat (s * (p1 / e) powr (- 1 / b)))"
    using q1 assms(3) by (intro water_content_pos) simp_all
  moreover have "water_content s e b p2 = Inr (PyFloat (s * (p2 / e) powr (- 1 / b)))"
    using q2 assms(3) by (intro water_content_pos) simp_all
  ultimately show "\<exists>c1 c2. water_content s e b p1 = Inr (PyFloat c1)
      \<and> water_content s e b p2 = Inr (PyFloat c2) \<and> c1 < c2"
    by blast
qed

theorem retention_monotone_witness:
  "(\<exists>p1 p2. water_potential 1 (- 1) 1 (1 / 2) = Inr (PyFloat p1)
                   \<and> water_potential 1 (- 1) 1 1 = Inr (PyFloat p2) \<and> p1 < p2)
   \<and> (\<exists>c1 c2. water_content 1 (- 1) 1 (- 2) = Inr (PyFloat c1)
                   \<and> water_content 1 (- 1) 1 (- 1) = Inr (PyFloat c2) \<and> c1 < c2)"
  using retention_monotone [of 1 "- 1" 1 "1 / 2" 1 "- 2" "- 1"] by simp

section \<open>Shape parameter and air-entry potential\<close>

text \<open>
  Claim C3. \<open>b_value\<close> fails with \<open>ValueError\<close> (math domain error, the spec's
  DomainError) whenever either argument is zero or negative: the logarithms are the
  first computation to detect it. It fails with \<open>ZeroDivisionError\<close> (an
  \<open>ArithmeticError\<close>) whenever the two arguments are equal and the logarithms are
  defined, and for positive, unequal arguments it returns
  \<open>(ln 1500 - ln 33) / (ln water_content_33 - ln water_content_1500)\<close>.
\<close>

theorem b_value_cases:
  "(w33 \<le> 0 \<or> w1500 \<le> 0 \<longrightarrow> b_value w33 w1500 = Inl ValueError)
   \<and> (0 < w33 \<and> w33 = w1500 \<longrightarrow> b_value w33 w1500 = Inl ZeroDivisionError)
   \<and> (0 < w33 \<and> 0 < w1500 \<and> w33 \<noteq> w1500 \<longrightarrow>
        b_value w33 w1500 = Inr ((ln 1500 - ln 33) / (ln w33 - ln w1500)))"
  by (auto simp add: b_value_def math_log_def py_truediv_def)

theorem b_value_cases_witness:
  "b_value (- 1) 1 = Inl ValueError \<and> b_value 1 0 = Inl ValueError
   \<and> b_value (1 / 10) (1 / 10) = Inl ZeroDivisionError
   \<and> b_value 1500 33 = Inr 1"
  using b_value_cases [of "- 1" 1] b_value_cases [of 1 0] b_value_cases [of "1 / 10" "1 / 10"]
    b_value_cases [of 1500 33]
  by simp

text \<open>
  Claim C4. For \<open>0 < field_capacity < saturated_water_content\<close> and \<open>b > 0\<close>,
  \<open>air_entry_pot\<close> returns \<open>-33 * (field_capacity / saturated_water_content) ^ b\<close>, and
  this value lies strictly between -33 and 0.
\<close>

theorem air_entry_pot_range:
  assumes "0 < fc" and "fc < s" and "0 < b"
  shows "\<exists>v. air_entry_pot fc s b = Inr (PyFloat v) \<and> v = - 33 * (fc / s) powr b
             \<and> - 33 < v \<and> v < 0"
proof -
  have r: "0 < fc / s" "fc / s < 1" using assms by simp_all
  have lt: "(fc / s) powr b < 1"
    using powr_less_mono2 [of b "fc / s" 1] r assms(3) by simp
  have gt: "0 < (fc / s) powr b" using assms by simp
  have "air_entry_pot fc s b = Inr (PyFloat (- 33 * (fc / s) powr b))"
    using assms by (simp add: air_entry_pot_def py_truediv_nonzero py_pow_pos)
  moreover have "- 33 < - 33 * (fc / s) powr b" using lt by linarith
  moreover have "- 33 * (fc / s) powr b < 0" using gt by linarith
  ultimately show ?thesis by blast
qed

theorem air_entry_pot_range_witness:
  "(0::real) < 1 / 2 \<and> (1 / 2 :: real) < 1 \<and> (0::real) < 2
   \<and> (\<exists>v. air_entry_pot (1 / 2) 1 2 = Inr (PyFloat v) \<and> v = - 33 * (1 / 2 / 1) powr 2
          \<and> - 33 < v \<and> v < 0)"
  using air_entry_pot_range [of "1 / 2" 1 2] by simp

section \<open>Ordering of the moisture points\<close>

text \<open>
  Claim C2, as the spec states it: for every valid texture (clay and sand in \<open>[0, 1]\<close>,
  clay + sand \<open>\<le> 1\<close>, organic matter \<open>\<ge> 0\<close>) the wilting-point content is below the
  field capacity, the field capacity below the saturated water content, that below 1,
  and \<open>b_value\<close> is positive. Three valid textures where it fails: pure clay with 4 %
  organic matter has its field capacity below its wilting point; pure sand without
  organic matter has a negative wilting-point content, so that \<open>b_value\<close> raises the math
  domain error; and 20 % organic matter without clay or sand gives a saturated water
  content above 1.
\<close>

theorem texture_ordering_fails:
  "vol_water_content_33_j_kg 1 0 4 < vol_water_content_1500_jkg 1 0 4
   \<and> b_value (vol_water_content_33_j_kg 0 1 0) (vol_water_content_1500_jkg 0 1 0)
       = Inl ValueError
   \<and> sat_water_content (get_bulk_density 0 0 20) = Inr (1444122163 / 1000000000)"
  by (simp add: sat_water_content_of_bulk_density sat_water_content_inline_def
      vol_water_content_33_j_kg_def vol_water_content_1500_jkg_def b_value_def math_log_def
      Let_def power2_eq_square)

text \<open>
  Claim C2, amended. For every texture with clay in \<open>[0, 0.5]\<close>, sand in \<open>[0, 1]\<close>,
  clay + sand \<open>\<le> 1\<close> and organic matter in \<open>[0, 8]\<close>:
  \<open>vol_water_content_1500_jkg < vol_water_content_33_j_kg <
  sat_water_content(get_bulk_density) < 1\<close>; the wilting-point content is positive when
  moreover clay \<open>\<ge> 0.02\<close>; and whenever the wilting-point content is positive,
  \<open>b_value\<close> of the two contents returns a strictly positive exponent.
\<close>

theorem texture_ordering:
  assumes "0 \<le> clay" "clay \<le> 1 / 2" "0 \<le> sand" "sand \<le> 1" "clay + sand \<le> 1"
    and "0 \<le> om" "om \<le> 8"
  shows "vol_water_content_1500_jkg clay sand om < vol_water_content_33_j_kg clay sand om
     \<and> (\<exists>sw. sat_water_content (get_bulk_density clay sand om) = Inr sw
            \<and> vol_water_content_33_j_kg clay sand om < sw \<and> sw < 1)
     \<and> (1 / 50 \<le> clay \<longrightarrow> 0 < vol_water_content_1500_jkg clay sand om)
     \<and> (0 < vol_water_content_1500_jkg clay sand om \<longrightarrow>
          (\<exists>b. b_value (vol_water_content_33_j_kg clay sand om)
                       (vol_water_content_1500_jkg clay sand om) = Inr b \<and> 0 < b))"
proof -
  note r = assms(1,2,3,5,6,7)
  have lt: "vol_water_content_1500_jkg clay sand om < vol_water_content_33_j_kg clay sand om"
    by (rule fc_above_wilting [OF r])
  have "vol_water_content_33_j_kg clay sand om < sat_water_content_inline clay sand om"
    by (rule sat_above_fc [OF r])
  moreover have "sat_water_content_inline clay sand om < 1"
    by (rule sat_below_one [OF r])
  ultimately have sat: "\<exists>sw. sat_water_content (get_bulk_density clay sand om) = Inr sw
      \<and> vol_water_content_33_j_kg clay sand om < sw \<and> sw < 1"
    using sat_water_content_of_bulk_density by blast
  have pos: "1 / 50 \<le> clay \<longrightarrow> 0 < vol_water_content_1500_jkg clay sand om"
    using wilting_pos [OF _ r(2-)] by blast
  have b: "0 < vol_water_content_1500_jkg clay sand om \<longrightarrow>
          (\<exists>b. b_value (vol_water_content_33_j_kg clay sand om)
                       (vol_water_content_1500_jkg clay sand om) = Inr b \<and> 0 < b)"
    using b_value_pos [OF _ lt] by blast
  from lt sat pos b show ?thesis by blast
qed

theorem texture_ordering_witness:
  "vol_water_content_1500_jkg (3 / 100) (92 / 100) (1906 / 1000)
       < vol_water_content_33_j_kg (3 / 100) (92 / 100) (1906 / 1000)
     \<and> (\<exists>sw. sat_water_content (get_bulk_density (3 / 100) (92 / 100) (1906 / 1000)) = Inr sw
            \<and> vol_water_content_33_j_kg (3 / 100) (92 / 100) (1906 / 1000) < sw \<and> sw < 1)
     \<and> 0 < vol_water_content_1500_jkg (3 / 100) (92 / 100) (1906 / 1000)
     \<and> (\<exists>b. b_value (vol_water_content_33_j_kg (3 / 100) (92 / 100) (1906 / 1000))
                  (vol_water_content_1500_jkg (3 / 100) (92 / 100) (1906 / 1000)) = Inr b
            \<and> 0 < b)"
  using texture_ordering [of "3 / 100" "92 / 100" "1906 / 1000"] by simp

section \<open>Bulk density and saturation\<close>

text \<open>
  Claim C8, as the spec states it: \<open>sat_water_content\<close> fails with a domain error for a
  bulk density \<open>\<le> 0\<close> or \<open>\<ge> 2.65\<close>. The function has no check: for the bulk density 3
  it returns the negative value \<open>1 - 3 / 2.65 = -7/53\<close>, and for 0 it returns 1.
\<close>

theorem sat_water_content_no_domain_error:
  "sat_water_content 3 = Inr (- (7 / 53)) \<and> sat_water_content 0 = Inr 1"
  by (simp add: sat_water_content_def MIN_SOIL_PARTICLE_DENS_def py_truediv_def)

text \<open>
  Claim C8, amended. \<open>sat_water_content\<close> returns \<open>1 - bulk_density / 2.65\<close> for every
  bulk density and never fails; the value lies in \<open>(0, 1)\<close> exactly when the bulk density
  lies in \<open>(0, 2.65)\<close>.
\<close>

theorem sat_water_content_never_fails:
  "sat_water_content bd = Inr (1 - bd / (265 / 100))
   \<and> (0 < bd \<and> bd < 265 / 100 \<longleftrightarrow> 0 < 1 - bd / (265 / 100) \<and> 1 - bd / (265 / 100) < 1)"
  by (auto simp add: sat_water_content_def MIN_SOIL_PARTICLE_DENS_def py_truediv_def field_simps)

theorem sat_water_content_never_fails_witness:
  "sat_water_content (13 / 10) = Inr (27 / 53) \<and> (0::real) < 27 / 53 \<and> (27 / 53 :: real) < 1"
  using sat_water_content_never_fails [of "13 / 10"] by simp

text \<open>
  Claim C9. For clay 0.03, sand 0.92 and organic matter 1.906, \<open>get_bulk_density\<close>
  returns a value within 0.01 of 1.43, and that value is \<open>(1 - S) * 2.65\<close> for the
  saturated water content \<open>S\<close> estimated inline from the texture regression and
  \<open>vol_water_content_33_j_kg\<close>.
\<close>

theorem get_bulk_density_scenario:
  "\<bar>get_bulk_density (3 / 100) (92 / 100) (1906 / 1000) - 143 / 100\<bar> \<le> 1 / 100
   \<and> get_bulk_density (3 / 100) (92 / 100) (1906 / 1000)
       = (1 - sat_water_content_inline (3 / 100) (92 / 100) (1906 / 1000)) * (265 / 100)"
  by (simp add: get_bulk_density_def sat_water_content_inline_def vol_water_content_33_j_kg_def
      MIN_SOIL_PARTICLE_DENS_def Let_def power2_eq_square)

end
